theory Spec2Isabelle
  imports Complex_Main "HOL-Library.Multiset" "HOL-Library.Log_Nat"
begin

section \<open>JavaScript values used by the pantry code\<close>

text \<open>
  A JavaScript number is a double. It is modelled by the rational it denotes, or one of
  the three non-finite values; negative zero is zero. The quotient and the product of the
  match percentage are rounded to the nearest double as the engine rounds them
  (\<open>toDouble\<close>): 53 significant bits, a tie to the even significand. Overflow and
  subnormal numbers do not arise for quotients of array lengths and are not modelled.
  A difference of two scores is read by its sign only, which is the sign of the exact
  difference. For the day counts and the two heuristics of the statistics the rounded
  double gives the same integer as the exact value, which is kept there.
\<close>

datatype number = NaN | PosInfinity | NegInfinity | Finite rat

definition round_half_even :: "rat \<Rightarrow> int" where
  "round_half_even s =
     (let f = \<lfloor>s\<rfloor>; d = s - of_int f
      in if d < 1 / 2 then f else if 1 / 2 < d then f + 1 else if even f then f else f + 1)"

text \<open>The exponent \<open>k\<close> of a positive number: \<open>2 ^ k \<le> x < 2 ^ (k + 1)\<close>.\<close>

definition binade :: "rat \<Rightarrow> int" where
  "binade x = (if 1 \<le> x then bitlen \<lfloor>x\<rfloor> - 1 else - bitlen (\<lceil>1 / x\<rceil> - 1))"

text \<open>
  The nearest double: the significand \<open>|x| / 2 ^ e\<close>, with \<open>e\<close> the exponent less 52, lies
  between \<open>2 ^ 52\<close> and \<open>2 ^ 53\<close> and is rounded to an integer.
\<close>

definition toDouble :: "rat \<Rightarrow> rat" where
  "toDouble x =
     (if x = 0 then 0
      else let a = \<bar>x\<bar>;
               e = binade a - 52;
               y = (if 0 \<le> e then of_int (round_half_even (a / 2 ^ nat e)) * 2 ^ nat e
                    else of_int (round_half_even (a * 2 ^ nat (- e))) / 2 ^ nat (- e))
           in if x < 0 then - y else y)"

definition js_div :: "rat \<Rightarrow> rat \<Rightarrow> number" where
  "js_div a b =
     (if b = 0 then (if a = 0 then NaN else if 0 < a then PosInfinity else NegInfinity)
      else Finite (toDouble (a / b)))"

fun js_times :: "number \<Rightarrow> rat \<Rightarrow> number" where
  "js_times NaN k = NaN"
| "js_times (Finite a) k = Finite (toDouble (a * k))"
| "js_times PosInfinity k = (if 0 < k then PosInfinity else if k < 0 then NegInfinity else NaN)"
| "js_times NegInfinity k = (if 0 < k then NegInfinity else if k < 0 then PosInfinity else NaN)"

fun js_minus :: "number \<Rightarrow> number \<Rightarrow> number" where
  "js_minus (Finite a) (Finite b) = Finite (a - b)"
| "js_minus NaN y = NaN"
| "js_minus x NaN = NaN"
| "js_minus PosInfinity PosInfinity = NaN"
| "js_minus NegInfinity NegInfinity = NaN"
| "js_minus PosInfinity y = PosInfinity"
| "js_minus NegInfinity y = NegInfinity"
| "js_minus (Finite a) PosInfinity = NegInfinity"
| "js_minus (Finite a) NegInfinity = PosInfinity"

text \<open>\<^verbatim>\<open>Math.round\<close> rounds to the nearest integer, a tie towards plus infinity.\<close>

definition round_half_up :: "rat \<Rightarrow> int" where
  "round_half_up x = \<lfloor>x + 1 / 2\<rfloor>"

fun Math_round :: "number \<Rightarrow> number" where
  "Math_round (Finite a) = Finite (of_int (round_half_up a))"
| "Math_round x = x"

definition Math_ceil :: "rat \<Rightarrow> int" where
  "Math_ceil x = \<lceil>x\<rceil>"

subsection \<open>Strings\<close>

text \<open>Template literals render a number in decimal.\<close>

fun show_nat :: "nat \<Rightarrow> string" where
  "show_nat n =
     (if n < 10 then [''0123456789'' ! n]
      else show_nat (n div 10) @ [''0123456789'' ! (n mod 10)])"

declare show_nat.simps [simp del]

definition show_int :: "int \<Rightarrow> string" where
  "show_int i = (if i < 0 then ''-'' @ show_nat (nat (- i)) else show_nat (nat i))"

text \<open>
  \<^verbatim>\<open>x.toFixed(f)\<close>: the sign, then the integer \<open>n\<close> nearest to \<open>|x| * 10^f\<close> (the
  larger one on a tie), written with \<open>f\<close> digits after the point.
\<close>

definition toFixed :: "nat \<Rightarrow> rat \<Rightarrow> string" where
  "toFixed f x =
     (let s = (if x < 0 then ''-'' else '''');
          m = show_nat (nat \<lfloor>\<bar>x\<bar> * 10 ^ f + 1 / 2\<rfloor>)
      in if f = 0 then s @ m
         else let m' = replicate (f + 1 - length m) (CHR ''0'') @ m;
                  k = length m' - f
              in s @ take k m' @ ''.'' @ drop k m')"

section \<open>Dates\<close>

text \<open>
  An instant is a number of milliseconds since the epoch, as \<^verbatim>\<open>getTime()\<close> returns it.
  A stored expiry date is the text \<^verbatim>\<open>YYYY-MM-DD\<close>; it is modelled by its day number
  (days since 1970-01-01). \<^verbatim>\<open>new Date("YYYY-MM-DD")\<close> is midnight UTC of that day, and
  comparing two such texts compares their day numbers. The server clock is taken in UTC,
  where \<^verbatim>\<open>setDate(getDate() + n)\<close> adds \<open>n\<close> whole days.
\<close>

type_synonym instant = int
type_synonym day = int

definition msPerDay :: int where
  "msPerDay = 1000 * 3600 * 24"

definition Date_parse :: "day \<Rightarrow> instant" where
  "Date_parse d = d * msPerDay"

definition addDays :: "instant \<Rightarrow> int \<Rightarrow> instant" where
  "addDays t n = t + n * msPerDay"

text \<open>\<^verbatim>\<open>toISOString().split('T')[0]\<close> and SQLite's \<^verbatim>\<open>date('now')\<close>: the UTC day of an instant.\<close>

definition isoDate :: "instant \<Rightarrow> day" where
  "isoDate t = t div msPerDay"

section \<open>The frontend freshness classifier\<close>

datatype status = Expired | Expiring | Fresh

text \<open>\<^verbatim>\<open>getExpiryStatus\<close> of the dashboard view, with the current instant as an argument.\<close>

definition daysUntil :: "instant \<Rightarrow> day \<Rightarrow> int" where
  "daysUntil now dateStr = Math_ceil (of_int (Date_parse dateStr - now) / of_int msPerDay)"

definition getExpiryStatus :: "instant \<Rightarrow> day \<Rightarrow> status \<times> int" where
  "getExpiryStatus now dateStr =
     (let days = daysUntil now dateStr
      in if days < 0 then (Expired, days)
         else if days \<le> 3 then (Expiring, days)
         else (Fresh, days))"

section \<open>The inventory store\<close>

text \<open>
  The \<^verbatim>\<open>Ingredient\<close> interface of the API, and a row of the \<^verbatim>\<open>ingredients\<close> table,
  which adds the owner and the two timestamps (the column \<^verbatim>\<open>expiry_date\<close> is selected
  as \<^verbatim>\<open>expiryDate\<close>). The category is the stored text.
\<close>

record Ingredient =
  item_id :: string
  name :: string
  category :: string
  quantity :: string
  expiryDate :: day
  confidence :: rat

record ingredient_row = Ingredient +
  user_id :: string
  created_at :: instant
  updated_at :: instant

record usage_stats_row =
  us_user_id :: string
  us_month :: string
  estimated_savings :: rat
  co2_saved :: rat

section \<open>GET /api/inventory/stats\<close>

record InventoryStats =
  total_items :: nat
  expiring :: nat
  expired :: nat
  fresh :: nat
  wasteSaved :: string
  co2Reduced :: string

text \<open>One round of the \<^verbatim>\<open>forEach\<close> loop on the counters \<open>(expired, expiring, fresh)\<close>.\<close>

definition tally_item :: "instant \<Rightarrow> instant \<Rightarrow> nat \<times> nat \<times> nat \<Rightarrow> day \<Rightarrow> nat \<times> nat \<times> nat" where
  "tally_item today threeDaysFromNow counters item_expiry_date =
     (case counters of (n_expired, n_expiring, n_fresh) \<Rightarrow>
        let expiryDate = Date_parse item_expiry_date
        in if expiryDate < today then (n_expired + 1, n_expiring, n_fresh)
           else if expiryDate \<le> threeDaysFromNow then (n_expired, n_expiring + 1, n_fresh)
           else (n_expired, n_expiring, n_fresh + 1))"

definition tally :: "instant \<Rightarrow> day list \<Rightarrow> nat \<times> nat \<times> nat" where
  "tally today allItems = foldl (tally_item today (addDays today 3)) (0, 0, 0) allItems"

text \<open>
  The handler. \<open>monthOf\<close> is \<^verbatim>\<open>toISOString().slice(0, 7)\<close>; \<^verbatim>\<open>.get\<close> returns the first
  matching row of \<^verbatim>\<open>usage_stats\<close>, or nothing. A number is truthy when it is not zero.
\<close>

definition get_stats ::
  "(instant \<Rightarrow> string) \<Rightarrow> ingredient_row list \<Rightarrow> usage_stats_row list \<Rightarrow> string \<Rightarrow> instant
     \<Rightarrow> InventoryStats" where
  "get_stats monthOf ingredients usage_stats userId today =
     (let allItems = map expiryDate (filter (\<lambda>r. user_id r = userId) ingredients);
          counters = tally today allItems;
          n_expired = fst counters;
          n_expiring = fst (snd counters);
          n_fresh = snd (snd counters);
          total = length allItems;
          currentMonth = monthOf today;
          usageStats = find (\<lambda>u. us_user_id u = userId \<and> us_month u = currentMonth) usage_stats;
          heuristic = int total - int n_expired;
          waste = (case usageStats of
                     Some u \<Rightarrow> if estimated_savings u \<noteq> 0
                               then ''$'' @ toFixed 0 (estimated_savings u)
                               else ''$'' @ show_int (round_half_up (of_int heuristic * (7 / 2)))
                   | None \<Rightarrow> ''$'' @ show_int (round_half_up (of_int heuristic * (7 / 2))));
          co2 = (case usageStats of
                   Some u \<Rightarrow> if co2_saved u \<noteq> 0
                             then toFixed 1 (co2_saved u) @ ''kg''
                             else show_int (round_half_up (of_int heuristic * (4 / 5))) @ ''kg''
                 | None \<Rightarrow> show_int (round_half_up (of_int heuristic * (4 / 5))) @ ''kg'')
      in \<lparr>total_items = total, expiring = n_expiring, expired = n_expired, fresh = n_fresh,
          wasteSaved = waste, co2Reduced = co2\<rparr>)"

section \<open>String helpers of the matcher\<close>

text \<open>\<^verbatim>\<open>toLowerCase\<close> on the ASCII letters; other characters are kept.\<close>

definition lowerChar :: "char \<Rightarrow> char" where
  "lowerChar c =
     (let n = (of_char c :: nat) in if 65 \<le> n \<and> n \<le> 90 then char_of (n + 32) else c)"

definition toLowerCase :: "string \<Rightarrow> string" where
  "toLowerCase s = map lowerChar s"

text \<open>\<^verbatim>\<open>s.split(' ')[0]\<close>: the text before the first space (all of it without a space).\<close>

definition firstWord :: "string \<Rightarrow> string" where
  "firstWord s = takeWhile (\<lambda>c. c \<noteq> CHR '' '') s"

fun startsWith :: "string \<Rightarrow> string \<Rightarrow> bool" where
  "startsWith s [] = True"
| "startsWith [] (c # t) = False"
| "startsWith (x # s) (c # t) = (x = c \<and> startsWith s t)"

text \<open>\<^verbatim>\<open>s.includes(t)\<close>: \<open>t\<close> occurs in \<open>s\<close> at some position.\<close>

fun includes_text :: "string \<Rightarrow> string \<Rightarrow> bool" where
  "includes_text [] t = (t = [])"
| "includes_text (x # s) t = (startsWith (x # s) t \<or> includes_text s t)"

section \<open>Array.prototype.sort\<close>

text \<open>
  The comparator's result is read by its sign, and \<^verbatim>\<open>NaN\<close> counts as zero. The sort is
  stable. It is modelled by the stable insertion sort driven by the comparator: on a
  consistent comparator every conforming engine returns this list.
\<close>

fun SortCompare :: "number \<Rightarrow> int" where
  "SortCompare NaN = 0"
| "SortCompare PosInfinity = 1"
| "SortCompare NegInfinity = - 1"
| "SortCompare (Finite v) = (if v < 0 then - 1 else if 0 < v then 1 else 0)"

fun insertSorted :: "('a \<Rightarrow> 'a \<Rightarrow> number) \<Rightarrow> 'a \<Rightarrow> 'a list \<Rightarrow> 'a list" where
  "insertSorted cmp x [] = [x]"
| "insertSorted cmp x (y # ys) =
     (if SortCompare (cmp x y) \<le> 0 then x # y # ys else y # insertSorted cmp x ys)"

definition Array_sort :: "('a \<Rightarrow> 'a \<Rightarrow> number) \<Rightarrow> 'a list \<Rightarrow> 'a list" where
  "Array_sort cmp xs = foldr (insertSorted cmp) xs []"

section \<open>Recipes\<close>

text \<open>
  A candidate is one object of the generator's JSON array; a \<^verbatim>\<open>Recipe\<close> adds the
  identifier, the match percentage and the image. Optional fields are options.
\<close>

record candidate =
  title :: string
  usedIngredients :: "string list"
  missingIngredients :: "string list"
  time :: string
  calories :: rat
  instructions :: "string list option"
  dietary :: "string list option"

record Recipe = candidate +
  recipe_id :: string
  matchPercentage :: number
  image_url :: string

datatype error = Error string

text \<open>The comparator \<^verbatim>\<open>(a, b) => b.matchPercentage - a.matchPercentage\<close>.\<close>

definition byMatch :: "Recipe \<Rightarrow> Recipe \<Rightarrow> number" where
  "byMatch a b = js_minus (matchPercentage b) (matchPercentage a)"

subsection \<open>The Gemini service\<close>

definition getRecipeImage :: "string \<Rightarrow> string" where
  "getRecipeImage ttl =
     (let keywords = toLowerCase ttl
      in if includes_text keywords ''pasta'' \<or> includes_text keywords ''spaghetti''
         then ''https://images.unsplash.com/photo-1621996346565-e3dbc646d9a9?w=400&h=300&fit=crop''
         else if includes_text keywords ''chicken''
         then ''https://images.unsplash.com/photo-1598515214211-89d3c73ae83b?w=400&h=300&fit=crop''
         else if includes_text keywords ''salad''
         then ''https://images.unsplash.com/photo-1512621776951-a57141f2eefd?w=400&h=300&fit=crop''
         else if includes_text keywords ''soup''
         then ''https://images.unsplash.com/photo-1547592166-23ac45744acd?w=400&h=300&fit=crop''
         else if includes_text keywords ''egg'' \<or> includes_text keywords ''breakfast''
         then ''https://images.unsplash.com/photo-1608039829572-9b59f7e06c9e?w=400&h=300&fit=crop''
         else if includes_text keywords ''yogurt'' \<or> includes_text keywords ''parfait''
         then ''https://images.unsplash.com/photo-1488477181946-6428a0291777?w=400&h=300&fit=crop''
         else ''https://images.unsplash.com/photo-1546069901-ba9599a7e63c?w=400&h=300&fit=crop'')"

text \<open>
  The function mapped over the parsed array by the service with cookbook mode: \<open>newId\<close> is
  the value of \<^verbatim>\<open>uuidv4()\<close>.
\<close>

definition scoreCandidate :: "bool \<Rightarrow> string \<Rightarrow> candidate \<Rightarrow> Recipe" where
  "scoreCandidate hasIngredients newId recipe =
     (let totalIngredients = length (usedIngredients recipe) + length (missingIngredients recipe);
          percentage =
            (if hasIngredients
             then Math_round (js_times (js_div (of_nat (length (usedIngredients recipe)))
                                              (of_nat totalIngredients)) 100)
             else Finite 0)
      in \<lparr>title = title recipe,
          usedIngredients = usedIngredients recipe,
          missingIngredients = missingIngredients recipe,
          time = time recipe,
          calories = calories recipe,
          instructions = Some (case instructions recipe of None \<Rightarrow> [] | Some steps \<Rightarrow> steps),
          dietary = Some (case dietary recipe of None \<Rightarrow> [] | Some tags \<Rightarrow> tags),
          recipe_id = newId,
          matchPercentage = percentage,
          image_url = getRecipeImage (title recipe)\<rparr>)"

text \<open>The same function in the service without cookbook mode: no \<^verbatim>\<open>dietary\<close> field.\<close>

definition scoreCandidate_plain :: "string \<Rightarrow> candidate \<Rightarrow> Recipe" where
  "scoreCandidate_plain newId recipe =
     (let totalIngredients = length (usedIngredients recipe) + length (missingIngredients recipe);
          percentage = Math_round (js_times (js_div (of_nat (length (usedIngredients recipe)))
                                                   (of_nat totalIngredients)) 100)
      in \<lparr>title = title recipe,
          usedIngredients = usedIngredients recipe,
          missingIngredients = missingIngredients recipe,
          time = time recipe,
          calories = calories recipe,
          instructions = Some (case instructions recipe of None \<Rightarrow> [] | Some steps \<Rightarrow> steps),
          dietary = None,
          recipe_id = newId,
          matchPercentage = percentage,
          image_url = getRecipeImage (title recipe)\<rparr>)"

text \<open>
  \<^verbatim>\<open>parsed.map(...)\<close>: the \<open>i\<close>-th call of \<^verbatim>\<open>uuidv4()\<close> returns \<open>uuidv4 i\<close>.
\<close>

definition scoreAll :: "bool \<Rightarrow> (nat \<Rightarrow> string) \<Rightarrow> candidate list \<Rightarrow> Recipe list" where
  "scoreAll hasIngredients uuidv4 parsed =
     map (\<lambda>(i, recipe). scoreCandidate hasIngredients (uuidv4 i) recipe) (enumerate 0 parsed)"

text \<open>
  \<^verbatim>\<open>generateRecipeSuggestions\<close> with cookbook mode. The generator's answer is \<open>None\<close> when
  the call fails or its text is not a JSON array of recipe objects: every such failure
  is caught and thrown again as one error.
\<close>

definition generateRecipeSuggestions ::
  "(nat \<Rightarrow> string) \<Rightarrow> 'a Ingredient_scheme list \<Rightarrow> candidate list option \<Rightarrow> error + Recipe list" where
  "generateRecipeSuggestions uuidv4 ingredients response =
     (let hasIngredients = (0 < length ingredients)
      in case response of
           None \<Rightarrow> Inl (Error ''Failed to generate recipes with AI'')
         | Some parsed \<Rightarrow> Inr (Array_sort byMatch (scoreAll hasIngredients uuidv4 parsed)))"

text \<open>\<^verbatim>\<open>generateRecipeSuggestions\<close> of the service without cookbook mode.\<close>

definition generateRecipeSuggestions_plain ::
  "(nat \<Rightarrow> string) \<Rightarrow> 'a Ingredient_scheme list \<Rightarrow> candidate list option \<Rightarrow> error + Recipe list" where
  "generateRecipeSuggestions_plain uuidv4 ingredients response =
     (case response of
        None \<Rightarrow> Inl (Error ''Failed to generate recipes with AI'')
      | Some parsed \<Rightarrow>
          Inr (Array_sort byMatch
                (map (\<lambda>(i, recipe). scoreCandidate_plain (uuidv4 i) recipe) (enumerate 0 parsed))))"

subsection \<open>The offline fallback of the recipe view\<close>

definition staticRecipe ::
  "string \<Rightarrow> string \<Rightarrow> string \<Rightarrow> rat \<Rightarrow> string list \<Rightarrow> string list \<Rightarrow> string \<Rightarrow> Recipe" where
  "staticRecipe rid ttl tm cal used missing img =
     \<lparr>title = ttl, usedIngredients = used, missingIngredients = missing, time = tm,
      calories = cal, instructions = None, dietary = None,
      recipe_id = rid, matchPercentage = Finite 0, image_url = img\<rparr>"

definition allRecipes :: "Recipe list" where
  "allRecipes =
     [staticRecipe ''r1'' ''Creamy Chicken Spinach Pasta'' ''25 min'' 450
        [''Chicken Breast'', ''Spinach'', ''Parmesan''] [''Pasta'', ''Heavy Cream'']
        ''https://images.unsplash.com/photo-1621996346565-e3dbc646d9a9?w=400&h=300&fit=crop'',
      staticRecipe ''r2'' ''Classic Eggs Benedict'' ''30 min'' 520
        [''Eggs''] [''English Muffin'', ''Ham'']
        ''https://images.unsplash.com/photo-1608039829572-9b59f7e06c9e?w=400&h=300&fit=crop'',
      staticRecipe ''r3'' ''Greek Yogurt Parfait'' ''5 min'' 280
        [''Greek Yogurt''] [''Granola'', ''Berries'']
        ''https://images.unsplash.com/photo-1488477181946-6428a0291777?w=400&h=300&fit=crop'',
      staticRecipe ''r4'' ''Tomato Basil Soup'' ''40 min'' 210
        [''Tomato Sauce''] [''Basil'', ''Cream'']
        ''https://images.unsplash.com/photo-1547592166-23ac45744acd?w=400&h=300&fit=crop'']"

definition available :: "'a Ingredient_scheme list \<Rightarrow> Recipe \<Rightarrow> string list" where
  "available inventory recipe =
     filter (\<lambda>req. list_ex (\<lambda>item. includes_text (toLowerCase (name item)) (firstWord (toLowerCase req))) inventory)
       (usedIngredients recipe)"

definition fallbackScore :: "'a Ingredient_scheme list \<Rightarrow> Recipe \<Rightarrow> Recipe" where
  "fallbackScore inventory recipe =
     (let percentage =
            Math_round (js_times (js_div (of_nat (length (available inventory recipe)))
                (of_nat (length (available inventory recipe) + length (missingIngredients recipe)))) 100)
      in recipe\<lparr>matchPercentage := percentage\<rparr>)"

definition getFallbackRecipes :: "'a Ingredient_scheme list \<Rightarrow> Recipe list" where
  "getFallbackRecipes inventory = Array_sort byMatch (map (fallbackScore inventory) allRecipes)"

section \<open>Writing to the inventory store\<close>


definition validCategories :: "string list" where
  "validCategories = [''Produce'', ''Dairy'', ''Pantry'', ''Meat'', ''Other'']"

text \<open>An HTTP answer: the status with the data, or the status with the error text.\<close>

datatype 'a response = Success nat 'a | Failure nat string

subsection \<open>POST /api/inventory/bulk\<close>







subsection \<open>PUT /api/inventory/:id\<close>

record update_body =
  new_name :: "string option"
  new_category :: "string option"
  new_quantity :: "string option"
  new_expiryDate :: "day option"
  new_confidence :: "rat option"

definition COALESCE :: "'a option \<Rightarrow> 'a \<Rightarrow> 'a" where
  "COALESCE x y = (case x of Some v \<Rightarrow> v | None \<Rightarrow> y)"

definition update_set :: "update_body \<Rightarrow> instant \<Rightarrow> ingredient_row \<Rightarrow> ingredient_row" where
  "update_set body now r =
     r\<lparr>name := COALESCE (new_name body) (name r),
       category := COALESCE (new_category body) (category r),
       quantity := COALESCE (new_quantity body) (quantity r),
       expiryDate := COALESCE (new_expiryDate body) (expiryDate r),
       confidence := COALESCE (new_confidence body) (confidence r),
       updated_at := now\<rparr>"

text \<open>
  The handler: the ownership test, the \<^verbatim>\<open>UPDATE\<close> of the rows with the identifier and
  the owner (it throws on a category outside the five names, and the handler answers 500),
  and the row read back by its identifier.
\<close>

definition put_item ::
  "ingredient_row list \<Rightarrow> string \<Rightarrow> string \<Rightarrow> update_body \<Rightarrow> instant
     \<Rightarrow> Ingredient option response \<times> ingredient_row list" where
  "put_item table userId ident body now =
     (case find (\<lambda>r. item_id r = ident \<and> user_id r = userId) table of
        None \<Rightarrow> (Failure 404 ''Item not found'', table)
      | Some existing \<Rightarrow>
          if (case new_category body of None \<Rightarrow> False | Some c \<Rightarrow> c \<notin> set validCategories)
          then (Failure 500 ''Failed to update item'', table)
          else let table' = map (\<lambda>r. if item_id r = ident \<and> user_id r = userId
                                      then update_set body now r else r) table;
                   updated = find (\<lambda>r. item_id r = ident) table'
               in (Success 200 (map_option Ingredient.truncate updated), table'))"

section \<open>The expiry notifications\<close>

record user_row =
  users_id :: string
  users_name :: string

text \<open>
  A row of \<^verbatim>\<open>notification_preferences\<close>. The preferences handler, the only writer of the
  table, always stores a number in \<^verbatim>\<open>expiry_days_before\<close> and in \<^verbatim>\<open>enabled\<close>.
\<close>

record notification_preferences_row =
  np_user_id :: string
  expiry_days_before :: int
  daily_summary :: int
  notify_time :: string
  enabled :: int

record NotificationPayload =
  payload_title :: string
  payload_body :: string
  tag :: string
  url :: string
  itemCount :: nat

fun join :: "string \<Rightarrow> string list \<Rightarrow> string" where
  "join sep [] = []"
| "join sep [x] = x"
| "join sep (x # y # ys) = x @ sep @ join sep (y # ys)"

text \<open>
  The rows of the \<^verbatim>\<open>LEFT JOIN\<close>: a user without a preference row has \<^verbatim>\<open>NULL\<close> in both
  columns; the \<^verbatim>\<open>WHERE\<close> clause keeps \<^verbatim>\<open>enabled = 1\<close> and \<^verbatim>\<open>enabled IS NULL\<close>.
\<close>

definition selected_users ::
  "user_row list \<Rightarrow> notification_preferences_row list \<Rightarrow> (string \<times> string \<times> int option \<times> int option) list" where
  "selected_users users prefs =
     filter (\<lambda>(uid, uname, days, en). en = Some 1 \<or> en = None)
       (map (\<lambda>u. case find (\<lambda>np. np_user_id np = users_id u) prefs of
                    None \<Rightarrow> (users_id u, users_name u, None, None)
                  | Some np \<Rightarrow> (users_id u, users_name u, Some (expiry_days_before np), Some (enabled np)))
            users)"

text \<open>\<^verbatim>\<open>user.expiry_days_before || 3\<close>: \<^verbatim>\<open>NULL\<close> and 0 are falsy.\<close>

definition daysBefore_of :: "int option \<Rightarrow> int" where
  "daysBefore_of days = (case days of None \<Rightarrow> 3 | Some d \<Rightarrow> if d = 0 then 3 else d)"

definition expiringItems_of :: "ingredient_row list \<Rightarrow> string \<Rightarrow> instant \<Rightarrow> int \<Rightarrow> ingredient_row list" where
  "expiringItems_of ingredients uid now daysBefore =
     (let futureDate = addDays now daysBefore
      in sort_key expiryDate
           (filter (\<lambda>i. user_id i = uid \<and> expiryDate i \<le> isoDate futureDate
                        \<and> isoDate now \<le> expiryDate i) ingredients))"

definition expiry_payload :: "ingredient_row list \<Rightarrow> int \<Rightarrow> NotificationPayload" where
  "expiry_payload expiringItems daysBefore =
     (let itemNames = join '', '' (map name (take 3 expiringItems));
          moreCount = (if 3 < length expiringItems
                       then '' and '' @ show_nat (length expiringItems - 3) @ '' more'' else [])
      in \<lparr>payload_title = ''Items Expiring Soon!'',
          payload_body = itemNames @ moreCount @ '' will expire within '' @ show_int daysBefore
                   @ '' days. Check your pantry!'',
          tag = ''expiry-reminder'',
          url = ''/pantry'',
          itemCount = length expiringItems\<rparr>)"

text \<open>
  \<^verbatim>\<open>sendExpiryNotifications\<close>: the result lists the calls of \<^verbatim>\<open>sendNotificationToUser\<close>,
  in order.
\<close>

definition sendExpiryNotifications ::
  "user_row list \<Rightarrow> notification_preferences_row list \<Rightarrow> ingredient_row list \<Rightarrow> instant
     \<Rightarrow> (string \<times> NotificationPayload) list" where
  "sendExpiryNotifications users prefs ingredients now =
     concat (map (\<lambda>(uid, uname, days, en).
                    let daysBefore = daysBefore_of days;
                        expiringItems = expiringItems_of ingredients uid now daysBefore
                    in if 0 < length expiringItems
                       then [(uid, expiry_payload expiringItems daysBefore)] else [])
                 (selected_users users prefs))"

text \<open>
  The integer that the code computes for \<open>u\<close> used ingredients out of \<open>t\<close>, the integer
  that exact arithmetic gives, and a test of a predicate on every number up to a bound.
\<close>

definition codePercent :: "nat \<Rightarrow> nat \<Rightarrow> int" where
  "codePercent u t = round_half_up (toDouble (toDouble (of_nat u / of_nat t) * 100))"

definition exactPercent :: "nat \<Rightarrow> nat \<Rightarrow> int" where
  "exactPercent u t = round_half_up (100 * of_nat u / of_nat t)"

definition agrees :: "nat \<Rightarrow> nat \<Rightarrow> bool" where
  "agrees t u = (codePercent u t = exactPercent u t)"

fun all_upto :: "(nat \<Rightarrow> bool) \<Rightarrow> nat \<Rightarrow> bool" where
  "all_upto P 0 = P 0"
| "all_upto P (Suc n) = (P (Suc n) \<and> all_upto P n)"

definition agreesRow :: "nat \<Rightarrow> bool" where
  "agreesRow t = all_upto (agrees t) t"

text \<open>The key by which a list of recipes with finite scores is ranked.\<close>

definition descendingKey :: "Recipe \<Rightarrow> rat" where
  "descendingKey r = (case matchPercentage r of Finite v \<Rightarrow> - v | _ \<Rightarrow> 0)"

section \<open>Sample rows\<close>

definition milk :: ingredient_row where
  "milk = \<lparr>item_id = ''i1'', name = ''Milk'', category = ''Dairy'', quantity = ''1'',
          expiryDate = 19884, confidence = 1, user_id = ''u'', created_at = 0, updated_at = 0\<rparr>"

definition eggs :: ingredient_row where
  "eggs = \<lparr>item_id = ''i2'', name = ''Eggs'', category = ''Dairy'', quantity = ''12'',
          expiryDate = 19890, confidence = 1, user_id = ''u'', created_at = 0, updated_at = 0\<rparr>"

definition june_zero :: usage_stats_row where
  "june_zero = \<lparr>us_user_id = ''u'', us_month = ''2024-06'', estimated_savings = 0, co2_saved = 0\<rparr>"

definition june_saved :: usage_stats_row where
  "june_saved = \<lparr>us_user_id = ''u'', us_month = ''2024-06'', estimated_savings = 25 / 2,
                  co2_saved = 13 / 4\<rparr>"

definition cand :: "string \<Rightarrow> string list \<Rightarrow> string list \<Rightarrow> candidate" where
  "cand ttl used missing = \<lparr>title = ttl, usedIngredients = used, missingIngredients = missing,
      time = ''10 min'', calories = 100, instructions = None, dietary = None\<rparr>"





definition ada :: user_row where
  "ada = \<lparr>users_id = ''u'', users_name = ''Ada''\<rparr>"

definition zeroDays :: notification_preferences_row where
  "zeroDays = \<lparr>np_user_id = ''u'', expiry_days_before = 0, daily_summary = 1,
                notify_time = ''09:00'', enabled = 1\<rparr>"

definition eggsSoon :: ingredient_row where
  "eggsSoon = eggs\<lparr>expiryDate := 19886\<rparr>"

definition quantityOnly :: update_body where
  "quantityOnly = \<lparr>new_name = None, new_category = None, new_quantity = Some ''6'',
                    new_expiryDate = None, new_confidence = None\<rparr>"

section \<open>Properties of the classifier and of the statistics\<close>

lemma ceil_quotient: "\<lceil>(of_int a :: rat) / of_int b\<rceil> = - (- a div b)"
proof -
  have "\<lceil>(of_int a :: rat) / of_int b\<rceil> = - \<lfloor>(of_int (- a) :: rat) / of_int b\<rfloor>"
    by (simp add: ceiling_def)
  then show ?thesis
    by (simp only: floor_divide_of_int_eq)
qed

text \<open>The day count of the classifier is the difference of the two UTC day numbers.\<close>

lemma daysUntil_eq: "daysUntil now d = d - isoDate now"
proof -
  have "daysUntil now d = - (- (d * msPerDay - now) div msPerDay)"
    unfolding daysUntil_def Math_ceil_def Date_parse_def by (rule ceil_quotient)
  also have "\<dots> = - ((now - d * msPerDay) div msPerDay)"
    by simp
  also have "\<dots> = d - now div msPerDay"
    by (simp add: msPerDay_def)
  finally show ?thesis by (simp add: isoDate_def)
qed

text \<open>An item that expires on the current UTC day is expiring, at every time of that day.\<close>

lemma classifier_today: "isoDate now = d \<Longrightarrow> getExpiryStatus now d = (Expiring, 0)"
  by (simp add: getExpiryStatus_def daysUntil_eq)

lemma classifier_buckets:
  "fst (getExpiryStatus now d) =
     (if d < isoDate now then Expired else if d \<le> isoDate now + 3 then Expiring else Fresh)"
  by (simp add: getExpiryStatus_def daysUntil_eq)

text \<open>
  The buckets of the statistics handler on day numbers: the upper bound is the one of the
  classifier, but an item of the current day is expired as soon as the day has begun.
\<close>

lemma stats_expired_iff:
  "Date_parse d < now \<longleftrightarrow> d < isoDate now \<or> (d = isoDate now \<and> now mod msPerDay \<noteq> 0)"
proof -
  define q r where "q = now div 86400000" and "r = now mod 86400000"
  have n: "now = 86400000 * q + r" and r: "0 \<le> r" "r < 86400000"
    by (simp_all add: q_def r_def)
  have "d * 86400000 < now \<longleftrightarrow> d < q \<or> (d = q \<and> r \<noteq> 0)"
    using n r by arith
  then show ?thesis
    by (simp add: Date_parse_def isoDate_def msPerDay_def q_def r_def)
qed

lemma stats_expiring_upper: "Date_parse d \<le> addDays now 3 \<longleftrightarrow> d \<le> isoDate now + 3"
proof -
  define q r where "q = now div 86400000" and "r = now mod 86400000"
  have n: "now = 86400000 * q + r" and r: "0 \<le> r" "r < 86400000"
    by (simp_all add: q_def r_def)
  have "d * 86400000 \<le> now + 3 * 86400000 \<longleftrightarrow> d \<le> q + 3"
    using n r by arith
  then show ?thesis
    by (simp add: Date_parse_def isoDate_def msPerDay_def addDays_def q_def r_def)
qed

lemma tally_foldl:
  "foldl (tally_item t u) (a, b, c) xs =
     (a + length (filter (\<lambda>e. Date_parse e < t) xs),
      b + length (filter (\<lambda>e. \<not> Date_parse e < t \<and> Date_parse e \<le> u) xs),
      c + length (filter (\<lambda>e. \<not> Date_parse e < t \<and> \<not> Date_parse e \<le> u) xs))"
  by (induction xs arbitrary: a b c) (auto simp: tally_item_def Let_def)

lemma three_way_split:
  "length (filter P xs) + length (filter (\<lambda>e. \<not> P e \<and> Q e) xs)
     + length (filter (\<lambda>e. \<not> P e \<and> \<not> Q e) xs) = length xs"
  by (induction xs) auto

lemma stats_counts:
  "total_items (get_stats m ings us uid now) = length (filter (\<lambda>r. user_id r = uid) ings)"
  "expired (get_stats m ings us uid now) =
     length (filter (\<lambda>e. Date_parse e < now) (map expiryDate (filter (\<lambda>r. user_id r = uid) ings)))"
  "expiring (get_stats m ings us uid now) =
     length (filter (\<lambda>e. \<not> Date_parse e < now \<and> Date_parse e \<le> addDays now 3)
        (map expiryDate (filter (\<lambda>r. user_id r = uid) ings)))"
  "fresh (get_stats m ings us uid now) =
     length (filter (\<lambda>e. \<not> Date_parse e < now \<and> \<not> Date_parse e \<le> addDays now 3)
        (map expiryDate (filter (\<lambda>r. user_id r = uid) ings)))"
  by (simp_all add: get_stats_def Let_def tally_def tally_foldl)

text \<open>
  C1. For every ingredient table and user, the three counters of the statistics add up to
  the total, which is the number of the user's items: every item is counted in exactly one
  bucket. On the empty table all four counts are zero.
\<close>

theorem stats_counts_partition:
  "expired (get_stats m ings us uid now) + expiring (get_stats m ings us uid now)
      + fresh (get_stats m ings us uid now) = total_items (get_stats m ings us uid now)
   \<and> total_items (get_stats m ings us uid now) = length (filter (\<lambda>r. user_id r = uid) ings)
   \<and> total_items (get_stats m [] us uid now) = 0 \<and> expired (get_stats m [] us uid now) = 0
   \<and> expiring (get_stats m [] us uid now) = 0 \<and> fresh (get_stats m [] us uid now) = 0"
  using three_way_split [of "\<lambda>e. Date_parse e < now"
      "map expiryDate (filter (\<lambda>r. user_id r = uid) ings)" "\<lambda>e. Date_parse e \<le> addDays now 3"]
  by (simp add: stats_counts)

text \<open>
  C2. At noon UTC of 2024-06-10 (day 19884), an item whose expiry date is 2024-06-10 has
  zero days left and is expiring for the frontend classifier, while the statistics handler
  compares the midnight of the expiry date with the current instant and counts the same
  item as expired.
\<close>

theorem stats_today_item_counted_expired:
  "getExpiryStatus (19884 * 86400000 + 43200000) 19884 = (Expiring, 0)
   \<and> expired (get_stats (\<lambda>t. ''2024-06'') [milk] [] ''u'' (19884 * 86400000 + 43200000)) = 1
   \<and> expiring (get_stats (\<lambda>t. ''2024-06'') [milk] [] ''u'' (19884 * 86400000 + 43200000)) = 0"
  by (simp add: classifier_today isoDate_def msPerDay_def stats_counts milk_def Date_parse_def
      addDays_def)

text \<open>
  C4, as the claim states it, fails: a usage row of the current month whose two values are
  zero exists, and the handler shows the heuristic values, not the stored ones.
\<close>

theorem stats_zero_override_ignored:
  "find (\<lambda>u. us_user_id u = ''u'' \<and> us_month u = ''2024-06'') [june_zero] = Some june_zero
   \<and> wasteSaved (get_stats (\<lambda>t. ''2024-06'') [milk, eggs] [june_zero] ''u'' (19884 * 86400000)) = ''$7''
   \<and> ''$'' @ toFixed 0 (estimated_savings june_zero) = ''$0''
   \<and> co2Reduced (get_stats (\<lambda>t. ''2024-06'') [milk, eggs] [june_zero] ''u'' (19884 * 86400000)) = ''2kg''
   \<and> toFixed 1 (co2_saved june_zero) @ ''kg'' = ''0.0kg''"
  by code_simp

text \<open>
  C4, amended. Without a usage row of the current month, or when the stored value is zero,
  \<open>wasteSaved\<close> is the rounded \<open>(total - expired) * 3.5\<close> and \<open>co2Reduced\<close> the rounded
  \<open>(total - expired) * 0.8\<close>; a stored value that is not zero replaces the heuristic, for
  each of the two values on its own. The four counts do not depend on the usage table.
\<close>

theorem stats_override_when_nonzero:
  "wasteSaved (get_stats m ings us uid now) =
     (case find (\<lambda>u. us_user_id u = uid \<and> us_month u = m now) us of
        Some u \<Rightarrow>
          if estimated_savings u \<noteq> 0 then ''$'' @ toFixed 0 (estimated_savings u)
          else ''$'' @ show_int (round_half_up (of_int (int (total_items (get_stats m ings us uid now))
                    - int (expired (get_stats m ings us uid now))) * (7 / 2)))
      | None \<Rightarrow> ''$'' @ show_int (round_half_up (of_int (int (total_items (get_stats m ings us uid now))
                    - int (expired (get_stats m ings us uid now))) * (7 / 2))))
   \<and> co2Reduced (get_stats m ings us uid now) =
     (case find (\<lambda>u. us_user_id u = uid \<and> us_month u = m now) us of
        Some u \<Rightarrow>
          if co2_saved u \<noteq> 0 then toFixed 1 (co2_saved u) @ ''kg''
          else show_int (round_half_up (of_int (int (total_items (get_stats m ings us uid now))
                    - int (expired (get_stats m ings us uid now))) * (4 / 5))) @ ''kg''
      | None \<Rightarrow> show_int (round_half_up (of_int (int (total_items (get_stats m ings us uid now))
                    - int (expired (get_stats m ings us uid now))) * (4 / 5))) @ ''kg'')
   \<and> total_items (get_stats m ings us uid now) = total_items (get_stats m ings us' uid now)
   \<and> expired (get_stats m ings us uid now) = expired (get_stats m ings us' uid now)
   \<and> expiring (get_stats m ings us uid now) = expiring (get_stats m ings us' uid now)
   \<and> fresh (get_stats m ings us uid now) = fresh (get_stats m ings us' uid now)"
  by (simp add: get_stats_def Let_def split: option.split)

theorem stats_override_when_nonzero_witness:
  "wasteSaved (get_stats (\<lambda>t. ''2024-06'') [milk, eggs] [june_saved] ''u'' (19884 * 86400000)) = ''$13''
   \<and> co2Reduced (get_stats (\<lambda>t. ''2024-06'') [milk, eggs] [june_saved] ''u'' (19884 * 86400000)) = ''3.3kg''
   \<and> wasteSaved (get_stats (\<lambda>t. ''2024-06'') [milk, eggs] [] ''u'' (19884 * 86400000)) = ''$7''
   \<and> co2Reduced (get_stats (\<lambda>t. ''2024-06'') [milk, eggs] [] ''u'' (19884 * 86400000)) = ''2kg''"
proof -
  have a: "find (\<lambda>u. us_user_id u = ''u'' \<and> us_month u = ''2024-06'') [june_saved] = Some june_saved"
    by code_simp
  have b: "estimated_savings june_saved \<noteq> 0" "co2_saved june_saved \<noteq> 0"
    by (simp_all add: june_saved_def)
  have c: "''$'' @ toFixed 0 (estimated_savings june_saved) = ''$13''"
    "toFixed 1 (co2_saved june_saved) @ ''kg'' = ''3.3kg''"
    by code_simp+
  have d: "total_items (get_stats (\<lambda>t. ''2024-06'') [milk, eggs] [] ''u'' (19884 * 86400000)) = 2"
    "expired (get_stats (\<lambda>t. ''2024-06'') [milk, eggs] [] ''u'' (19884 * 86400000)) = 0"
    by code_simp+
  have e: "''$'' @ show_int (round_half_up (of_int (int 2 - int 0) * (7 / 2))) = ''$7''"
    "show_int (round_half_up (of_int (int 2 - int 0) * (4 / 5))) @ ''kg'' = ''2kg''"
    by code_simp+
  from stats_override_when_nonzero
    [of "\<lambda>t. ''2024-06''" "[milk, eggs]" "[june_saved]" "''u''" "19884 * 86400000" "[]"]
    stats_override_when_nonzero
    [of "\<lambda>t. ''2024-06''" "[milk, eggs]" "[]" "''u''" "19884 * 86400000" "[]"]
  show ?thesis
    using a b c d e by simp
qed

section \<open>Properties of the double arithmetic\<close>

lemma floor_rat_numeral:
  "\<lfloor>(numeral a :: rat) / numeral b\<rfloor> = numeral a div numeral b"
  by (metis floor_divide_of_int_eq of_int_numeral)

lemma floor_rat_neg_numeral:
  "\<lfloor>- ((numeral a :: rat) / numeral b)\<rfloor> = - numeral a div numeral b"
  by (metis divide_minus_left floor_divide_of_int_eq of_int_neg_numeral of_int_numeral)

lemma ceiling_rat_numeral:
  "\<lceil>(numeral a :: rat) / numeral b\<rceil> = - (- numeral a div numeral b)"
  by (simp add: ceiling_def floor_rat_neg_numeral)

lemmas double_eval = toDouble_def binade_def round_half_even_def round_half_up_def Let_def
  compute_bitlen floor_rat_numeral floor_rat_neg_numeral ceiling_rat_numeral







lemma all_upto_iff: "all_upto P n \<longleftrightarrow> (\<forall>i\<le>n. P i)"
  by (induction n) (auto simp: le_Suc_eq)

lemma all_upto_numeral: "all_upto P (numeral k) = (P (numeral k) \<and> all_upto P (pred_numeral k))"
  by (simp add: numeral_eq_Suc)

lemma all_upto_1: "all_upto P 1 = (P 1 \<and> P 0)"
  by (simp add: One_nat_def del: One_nat_def [symmetric])

lemmas percent_eval = agrees_def codePercent_def exactPercent_def double_eval
  all_upto_numeral all_upto_1




text \<open>
  The code's integer is the exact one for every total below 40, row by row; at 23 of 40
  the product is below the tie and the two differ.
\<close>

lemma agrees_rows_1:
  "agreesRow (Suc 0)"
  "agreesRow 2"
  "agreesRow 3"
  "agreesRow 4"
  "agreesRow 5"
  "agreesRow 6"
  "agreesRow 7"
  "agreesRow 8"
  "agreesRow 9"
  "agreesRow 10"
  "agreesRow 11"
  "agreesRow 12"
  "agreesRow 13"
  "agreesRow 14"
  by (simp_all add: agreesRow_def percent_eval)

lemma agrees_rows_2:
  "agreesRow 15"
  "agreesRow 16"
  "agreesRow 17"
  "agreesRow 18"
  "agreesRow 19"
  "agreesRow 20"
  by (simp_all add: agreesRow_def percent_eval)

lemma agrees_rows_3:
  "agreesRow 21"
  "agreesRow 22"
  "agreesRow 23"
  "agreesRow 24"
  "agreesRow 25"
  by (simp_all add: agreesRow_def percent_eval)

lemma agrees_rows_4:
  "agreesRow 26"
  "agreesRow 27"
  "agreesRow 28"
  "agreesRow 29"
  by (simp_all add: agreesRow_def percent_eval)

lemma agrees_rows_5:
  "agreesRow 30"
  "agreesRow 31"
  "agreesRow 32"
  "agreesRow 33"
  by (simp_all add: agreesRow_def percent_eval)

lemma agrees_rows_6:
  "agreesRow 34"
  "agreesRow 35"
  "agreesRow 36"
  by (simp_all add: agreesRow_def percent_eval)

lemma agrees_rows_7:
  "agreesRow 37"
  "agreesRow 38"
  "agreesRow 39"
  by (simp_all add: agreesRow_def percent_eval)

lemma agrees_below_40: "all_upto (\<lambda>t. t = 0 \<or> agreesRow t) 39"
  by (simp add: all_upto_numeral all_upto_1 agrees_rows_1 agrees_rows_2 agrees_rows_3 agrees_rows_4 agrees_rows_5 agrees_rows_6 agrees_rows_7)

lemma exact_below_40:
  assumes "0 < t" "t < 40" "u \<le> t"
  shows "codePercent u t = exactPercent u t"
proof -
  from agrees_below_40 have "\<forall>i\<le>39. i = 0 \<or> agreesRow i"
    by (simp only: all_upto_iff)
  moreover have "t \<le> 39" "t \<noteq> 0" using assms by simp_all
  ultimately have "agreesRow t" by blast
  with assms show ?thesis by (auto simp: agreesRow_def all_upto_iff agrees_def)
qed


section \<open>Properties of the recipe matcher\<close>



lemma inventory_percentage:
  "0 < u + m \<Longrightarrow>
     Math_round (js_times (js_div (of_nat u) (of_nat (u + m))) 100)
       = Finite (of_int (codePercent u (u + m)))"
  "Math_round (js_times (js_div (of_nat 0) (of_nat (0 + 0))) 100) = NaN"
  by (simp_all add: js_div_def add_nonneg_eq_0_iff codePercent_def)

lemma candidate_score:
  "matchPercentage (scoreCandidate True i c)
     = Math_round (js_times (js_div (of_nat (length (usedIngredients c)))
         (of_nat (length (usedIngredients c) + length (missingIngredients c)))) 100)"
  "matchPercentage (scoreCandidate_plain i c)
     = Math_round (js_times (js_div (of_nat (length (usedIngredients c)))
         (of_nat (length (usedIngredients c) + length (missingIngredients c)))) 100)"
  by (simp_all add: scoreCandidate_def scoreCandidate_plain_def Let_def)


lemma mset_insertSorted: "mset (insertSorted cmp x ys) = add_mset x (mset ys)"
  by (induction ys) auto

lemma mset_Array_sort: "mset (Array_sort cmp xs) = mset xs"
  unfolding Array_sort_def by (induction xs) (auto simp: mset_insertSorted)

lemma SortCompare_Finite: "SortCompare (Finite d) \<le> 0 \<longleftrightarrow> d \<le> 0"
  by simp

lemma insertSorted_insort_key:
  assumes "\<exists>v. matchPercentage x = Finite v"
    and "\<forall>y\<in>set ys. \<exists>v. matchPercentage y = Finite v"
  shows "insertSorted byMatch x ys = insort_key descendingKey x ys"
  using assms
  by (induction ys) (auto simp: byMatch_def descendingKey_def SortCompare_Finite simp del: SortCompare.simps)

lemma Array_sort_sort_key:
  assumes "\<forall>r\<in>set rs. \<exists>v. matchPercentage r = Finite v"
  shows "Array_sort byMatch rs = sort_key descendingKey rs"
  using assms
proof (induction rs)
  case Nil
  then show ?case by (simp add: Array_sort_def)
next
  case (Cons r rs)
  then have ih: "Array_sort byMatch rs = sort_key descendingKey rs" by simp
  have "Array_sort byMatch (r # rs) = insertSorted byMatch r (Array_sort byMatch rs)"
    by (simp add: Array_sort_def)
  also have "\<dots> = insort_key descendingKey r (sort_key descendingKey rs)"
    unfolding ih using Cons.prems by (intro insertSorted_insort_key) auto
  finally show ?case by (simp add: sort_key_def)
qed

lemma ranked:
  assumes fin: "\<forall>r\<in>set rs. \<exists>v. matchPercentage r = Finite v"
  shows "mset (Array_sort byMatch rs) = mset rs
    \<and> sorted_wrt (\<lambda>a b. \<exists>x y. matchPercentage a = Finite x \<and> matchPercentage b = Finite y \<and> y \<le> x)
        (Array_sort byMatch rs)
    \<and> (\<forall>k. filter (\<lambda>r. matchPercentage r = k) (Array_sort byMatch rs)
            = filter (\<lambda>r. matchPercentage r = k) rs)"
proof (intro conjI allI)
  let ?out = "Array_sort byMatch rs"
  have eq: "?out = sort_key descendingKey rs"
    using fin by (rule Array_sort_sort_key)
  have set_out: "set ?out = set rs"
    by (simp add: eq)
  show "mset ?out = mset rs"
    by (rule mset_Array_sort)
  have "sorted (map descendingKey ?out)"
    by (simp add: eq)
  then have "sorted_wrt (\<lambda>a b. descendingKey a \<le> descendingKey b) ?out"
    by (simp add: sorted_map)
  then show "sorted_wrt (\<lambda>a b. \<exists>x y. matchPercentage a = Finite x \<and> matchPercentage b = Finite y \<and> y \<le> x) ?out"
  proof (rule sorted_wrt_mono_rel [rotated])
    fix a b
    assume "a \<in> set ?out" "b \<in> set ?out" and le: "descendingKey a \<le> descendingKey b"
    then obtain x y where "matchPercentage a = Finite x" "matchPercentage b = Finite y"
      using fin set_out by blast
    with le show "\<exists>x y. matchPercentage a = Finite x \<and> matchPercentage b = Finite y \<and> y \<le> x"
      by (simp add: descendingKey_def)
  qed
  fix k
  show "filter (\<lambda>r. matchPercentage r = k) ?out = filter (\<lambda>r. matchPercentage r = k) rs"
  proof (cases k)
    case (Finite v)
    have key: "\<And>r. r \<in> set rs \<Longrightarrow> (matchPercentage r = k) = (descendingKey r = - v)"
      using fin Finite by (auto simp: descendingKey_def)
    have "filter (\<lambda>r. matchPercentage r = k) ?out = filter (\<lambda>r. descendingKey r = - v) ?out"
      using key set_out by (intro filter_cong) auto
    also have "\<dots> = filter (\<lambda>r. descendingKey r = - v) rs"
      unfolding eq by (rule sort_key_stable)
    also have "\<dots> = filter (\<lambda>r. matchPercentage r = k) rs"
      using key by (intro filter_cong) auto
    finally show ?thesis .
  next
    case NaN
    then have "\<And>r. r \<in> set rs \<Longrightarrow> matchPercentage r \<noteq> k" using fin by auto
    then show ?thesis using set_out by (simp add: filter_empty_conv [THEN iffD2])
  next
    case PosInfinity
    then have "\<And>r. r \<in> set rs \<Longrightarrow> matchPercentage r \<noteq> k" using fin by auto
    then show ?thesis using set_out by (simp add: filter_empty_conv [THEN iffD2])
  next
    case NegInfinity
    then have "\<And>r. r \<in> set rs \<Longrightarrow> matchPercentage r \<noteq> k" using fin by auto
    then show ?thesis using set_out by (simp add: filter_empty_conv [THEN iffD2])
  qed
qed


lemma scoreAll_member:
  "r \<in> set (scoreAll h uuidv4 parsed) \<Longrightarrow> \<exists>i c. c \<in> set parsed \<and> r = scoreCandidate h (uuidv4 i) c"
  using nth_mem by (fastforce simp: scoreAll_def in_set_enumerate_eq)

lemma cookbook_zero: "matchPercentage (scoreCandidate False i c) = Finite 0"
  by (simp add: scoreCandidate_def)

lemma scored_finite:
  assumes "usedIngredients c \<noteq> [] \<or> missingIngredients c \<noteq> []"
  shows "\<exists>v. matchPercentage (scoreCandidate True i c) = Finite v"
proof -
  from assms have "0 < length (usedIngredients c) + length (missingIngredients c)" by auto
  from inventory_percentage(1) [OF this] show ?thesis
    by (simp add: candidate_score)
qed

lemma static_missing: "r \<in> set allRecipes \<Longrightarrow> missingIngredients r \<noteq> []"
  by (auto simp: allRecipes_def staticRecipe_def)

lemma static_small:
  "r \<in> set allRecipes \<Longrightarrow> length (usedIngredients r) + length (missingIngredients r) < 40"
  by (auto simp: allRecipes_def staticRecipe_def)

lemma available_length: "length (available inventory r) \<le> length (usedIngredients r)"
  by (simp add: available_def)

lemma fallback_code_percentage:
  "available inventory r \<noteq> [] \<or> missingIngredients r \<noteq> [] \<Longrightarrow>
     matchPercentage (fallbackScore inventory r)
       = Finite (of_int (codePercent (length (available inventory r))
           (length (available inventory r) + length (missingIngredients r))))"
proof -
  assume "available inventory r \<noteq> [] \<or> missingIngredients r \<noteq> []"
  then have "0 < length (available inventory r) + length (missingIngredients r)" by auto
  from inventory_percentage(1) [OF this] show ?thesis
    by (simp add: fallbackScore_def Let_def)
qed

lemma fallback_percentage:
  assumes "available inventory r \<noteq> [] \<or> missingIngredients r \<noteq> []"
    and "length (available inventory r) + length (missingIngredients r) < 40"
  shows "matchPercentage (fallbackScore inventory r)
       = Finite (of_int (round_half_up (100 * of_nat (length (available inventory r))
           / of_nat (length (available inventory r) + length (missingIngredients r)))))"
proof -
  from assms(1) have pos: "0 < length (available inventory r) + length (missingIngredients r)"
    by auto
  from exact_below_40 [OF pos assms(2), of "length (available inventory r)"]
  show ?thesis
    unfolding fallback_code_percentage [OF assms(1)] by (simp add: exactPercent_def)
qed

lemma static_percentage:
  assumes "r \<in> set allRecipes"
  shows "matchPercentage (fallbackScore inventory r)
       = Finite (of_int (round_half_up (100 * of_nat (length (available inventory r))
           / of_nat (length (available inventory r) + length (missingIngredients r)))))"
proof (rule fallback_percentage)
  show "available inventory r \<noteq> [] \<or> missingIngredients r \<noteq> []"
    using static_missing [OF assms] by simp
  show "length (available inventory r) + length (missingIngredients r) < 40"
    using static_small [OF assms] available_length [of inventory r] by simp
qed

lemma all_zero_sorted:
  "\<forall>r\<in>set rs. matchPercentage r = Finite 0 \<Longrightarrow> Array_sort byMatch rs = rs"
proof (induction rs)
  case Nil
  then show ?case by (simp add: Array_sort_def)
next
  case (Cons r rs)
  then have ih: "Array_sort byMatch rs = rs" by simp
  have "insertSorted byMatch r rs = r # rs"
    using Cons.prems by (cases rs) (simp_all add: byMatch_def)
  then show ?case using ih by (simp add: Array_sort_def)
qed

text \<open>
  C7. Called with no ingredients, the service scores every candidate 0 whatever its two
  lists are, and returns the candidates in the generator's order.
\<close>

theorem cookbook_mode_zero:
  "generateRecipeSuggestions uuidv4 [] (Some parsed) = Inr (scoreAll False uuidv4 parsed)
   \<and> length (scoreAll False uuidv4 parsed) = length parsed
   \<and> (\<forall>r\<in>set (scoreAll False uuidv4 parsed). matchPercentage r = Finite 0)"
proof -
  have z: "\<forall>r\<in>set (scoreAll False uuidv4 parsed). matchPercentage r = Finite 0"
    using scoreAll_member [of _ False uuidv4 parsed] cookbook_zero by metis
  then show ?thesis
    by (simp add: generateRecipeSuggestions_def all_zero_sorted) (simp add: scoreAll_def)
qed

text \<open>
  C5, amended. When every scored candidate has a finite score (in cookbook mode, or when
  every candidate lists at least one ingredient), the list returned by the service is a
  permutation of the scored candidates, in descending order of the score, and the
  candidates of one score keep their original order. The same holds for the offline
  fallback list, for every inventory.
\<close>

theorem ranking_sorted_stable:
  "(ingredients = [] \<or> (\<forall>c\<in>set parsed. usedIngredients c \<noteq> [] \<or> missingIngredients c \<noteq> []) \<longrightarrow>
      (\<exists>out. generateRecipeSuggestions uuidv4 ingredients (Some parsed) = Inr out
         \<and> mset out = mset (scoreAll (ingredients \<noteq> []) uuidv4 parsed)
         \<and> sorted_wrt (\<lambda>a b. \<exists>x y. matchPercentage a = Finite x \<and> matchPercentage b = Finite y \<and> y \<le> x) out
         \<and> (\<forall>k. filter (\<lambda>r. matchPercentage r = k) out
                = filter (\<lambda>r. matchPercentage r = k) (scoreAll (ingredients \<noteq> []) uuidv4 parsed))))
   \<and> mset (getFallbackRecipes inventory) = mset (map (fallbackScore inventory) allRecipes)
   \<and> sorted_wrt (\<lambda>a b. \<exists>x y. matchPercentage a = Finite x \<and> matchPercentage b = Finite y \<and> y \<le> x)
        (getFallbackRecipes inventory)
   \<and> (\<forall>k. filter (\<lambda>r. matchPercentage r = k) (getFallbackRecipes inventory)
          = filter (\<lambda>r. matchPercentage r = k) (map (fallbackScore inventory) allRecipes))"
proof -
  have fb: "\<forall>r\<in>set (map (fallbackScore inventory) allRecipes). \<exists>v. matchPercentage r = Finite v"
    using static_percentage [of _ inventory] by fastforce
  have part2: "mset (getFallbackRecipes inventory) = mset (map (fallbackScore inventory) allRecipes)
   \<and> sorted_wrt (\<lambda>a b. \<exists>x y. matchPercentage a = Finite x \<and> matchPercentage b = Finite y \<and> y \<le> x)
        (getFallbackRecipes inventory)
   \<and> (\<forall>k. filter (\<lambda>r. matchPercentage r = k) (getFallbackRecipes inventory)
          = filter (\<lambda>r. matchPercentage r = k) (map (fallbackScore inventory) allRecipes))"
    unfolding getFallbackRecipes_def using fb by (rule ranked)
  have part1: "\<exists>out. generateRecipeSuggestions uuidv4 ingredients (Some parsed) = Inr out
         \<and> mset out = mset (scoreAll (ingredients \<noteq> []) uuidv4 parsed)
         \<and> sorted_wrt (\<lambda>a b. \<exists>x y. matchPercentage a = Finite x \<and> matchPercentage b = Finite y \<and> y \<le> x) out
         \<and> (\<forall>k. filter (\<lambda>r. matchPercentage r = k) out
                = filter (\<lambda>r. matchPercentage r = k) (scoreAll (ingredients \<noteq> []) uuidv4 parsed))"
    if h: "ingredients = [] \<or> (\<forall>c\<in>set parsed. usedIngredients c \<noteq> [] \<or> missingIngredients c \<noteq> [])"
  proof -
    have fin: "\<forall>r\<in>set (scoreAll (ingredients \<noteq> []) uuidv4 parsed). \<exists>v. matchPercentage r = Finite v"
    proof
      fix r assume "r \<in> set (scoreAll (ingredients \<noteq> []) uuidv4 parsed)"
      then obtain i c where c: "c \<in> set parsed" and r: "r = scoreCandidate (ingredients \<noteq> []) (uuidv4 i) c"
        using scoreAll_member by blast
      show "\<exists>v. matchPercentage r = Finite v"
      proof (cases "ingredients = []")
        case True
        then show ?thesis using r cookbook_zero by simp
      next
        case False
        then have "usedIngredients c \<noteq> [] \<or> missingIngredients c \<noteq> []" using h c by blast
        then show ?thesis using r False scored_finite by simp
      qed
    qed
    have "generateRecipeSuggestions uuidv4 ingredients (Some parsed)
            = Inr (Array_sort byMatch (scoreAll (ingredients \<noteq> []) uuidv4 parsed))"
      by (simp add: generateRecipeSuggestions_def)
    then show ?thesis using ranked [OF fin] by simp
  qed
  from part1 part2 show ?thesis by blast
qed



text \<open>
  C5, as the claim states it, fails: a candidate without a score between two others leaves
  the list as it was, with the score 33 before the score 100.
\<close>

theorem ranking_broken_by_NaN:
  "generateRecipeSuggestions show_nat [milk]
      (Some [cand ''Toast'' [''Bread''] [''Butter'', ''Jam''], cand ''Plain Rice'' [] [],
             cand ''Milk Shake'' [''Milk''] []])
    = Inr (Array_sort byMatch (scoreAll True show_nat
        [cand ''Toast'' [''Bread''] [''Butter'', ''Jam''], cand ''Plain Rice'' [] [],
         cand ''Milk Shake'' [''Milk''] []]))
   \<and> map matchPercentage (Array_sort byMatch (scoreAll True show_nat
        [cand ''Toast'' [''Bread''] [''Butter'', ''Jam''], cand ''Plain Rice'' [] [],
         cand ''Milk Shake'' [''Milk''] []]))
       = [Finite 33, NaN, Finite 100]
   \<and> map title (Array_sort byMatch (scoreAll True show_nat
        [cand ''Toast'' [''Bread''] [''Butter'', ''Jam''], cand ''Plain Rice'' [] [],
         cand ''Milk Shake'' [''Milk''] []]))
       = [''Toast'', ''Plain Rice'', ''Milk Shake'']"
  by code_simp

theorem ranking_sorted_stable_witness:
  "(\<exists>out. generateRecipeSuggestions show_nat [milk]
           (Some [cand ''Toast'' [''Bread'', ''Butter''] [''Jam'', ''Honey'', ''Salt''],
                  cand ''Milk Shake'' [''Milk'', ''Sugar'', ''Ice'', ''Cocoa''] [''Cream''],
                  cand ''Porridge'' [''Milk'', ''Oats''] [''Honey'', ''Salt'', ''Nuts'']]) = Inr out
      \<and> map title out = [''Milk Shake'', ''Toast'', ''Porridge'']
      \<and> map matchPercentage out = [Finite 80, Finite 40, Finite 40]
      \<and> sorted_wrt (\<lambda>a b. \<exists>x y. matchPercentage a = Finite x \<and> matchPercentage b = Finite y \<and> y \<le> x) out)
   \<and> sorted_wrt (\<lambda>a b. \<exists>x y. matchPercentage a = Finite x \<and> matchPercentage b = Finite y \<and> y \<le> x)
        (getFallbackRecipes [milk, eggs])
   \<and> map title (getFallbackRecipes [milk, eggs])
        = [''Classic Eggs Benedict'', ''Creamy Chicken Spinach Pasta'', ''Greek Yogurt Parfait'', ''Tomato Basil Soup'']"
proof -
  let ?parsed = "[cand ''Toast'' [''Bread'', ''Butter''] [''Jam'', ''Honey'', ''Salt''],
                  cand ''Milk Shake'' [''Milk'', ''Sugar'', ''Ice'', ''Cocoa''] [''Cream''],
                  cand ''Porridge'' [''Milk'', ''Oats''] [''Honey'', ''Salt'', ''Nuts'']]"
  have h: "[milk] = [] \<or> (\<forall>c\<in>set ?parsed. usedIngredients c \<noteq> [] \<or> missingIngredients c \<noteq> [])"
    by (simp add: cand_def)
  have e: "(case generateRecipeSuggestions show_nat [milk] (Some ?parsed)
              of Inr out \<Rightarrow> (map title out, map matchPercentage out) | Inl e \<Rightarrow> ([], []))
           = ([''Milk Shake'', ''Toast'', ''Porridge''], [Finite 80, Finite 40, Finite 40])"
    by code_simp
  have f: "map title (getFallbackRecipes [milk, eggs])
        = [''Classic Eggs Benedict'', ''Creamy Chicken Spinach Pasta'', ''Greek Yogurt Parfait'', ''Tomato Basil Soup'']"
    by code_simp
  from ranking_sorted_stable [of "[milk]" ?parsed show_nat "[milk, eggs]"] h
  obtain out where o: "generateRecipeSuggestions show_nat [milk] (Some ?parsed) = Inr out"
    and s: "sorted_wrt (\<lambda>a b. \<exists>x y. matchPercentage a = Finite x \<and> matchPercentage b = Finite y \<and> y \<le> x) out"
    and g: "sorted_wrt (\<lambda>a b. \<exists>x y. matchPercentage a = Finite x \<and> matchPercentage b = Finite y \<and> y \<le> x)
        (getFallbackRecipes [milk, eggs])"
    by blast
  from e o have "map title out = [''Milk Shake'', ''Toast'', ''Porridge'']"
    "map matchPercentage out = [Finite 80, Finite 40, Finite 40]" by simp_all
  with o s g f show ?thesis
    by (intro conjI exI [of _ out]) assumption+
qed

theorem cookbook_mode_zero_witness:
  "generateRecipeSuggestions show_nat ([] :: ingredient_row list)
       (Some [cand ''Toast'' [''Bread''] [''Butter''], cand ''Milk Shake'' [''Milk''] []])
     = Inr (scoreAll False show_nat [cand ''Toast'' [''Bread''] [''Butter''], cand ''Milk Shake'' [''Milk''] []])
   \<and> map matchPercentage (scoreAll False show_nat
        [cand ''Toast'' [''Bread''] [''Butter''], cand ''Milk Shake'' [''Milk''] []]) = [Finite 0, Finite 0]
   \<and> map title (scoreAll False show_nat
        [cand ''Toast'' [''Bread''] [''Butter''], cand ''Milk Shake'' [''Milk''] []]) = [''Toast'', ''Milk Shake'']"
proof -
  let ?parsed = "[cand ''Toast'' [''Bread''] [''Butter''], cand ''Milk Shake'' [''Milk''] []]"
  have t: "map title (scoreAll False show_nat ?parsed) = [''Toast'', ''Milk Shake'']"
    by code_simp
  have l: "length (scoreAll False show_nat ?parsed) = 2"
    by code_simp
  from cookbook_mode_zero [of show_nat ?parsed]
  have g: "generateRecipeSuggestions show_nat ([] :: ingredient_row list) (Some ?parsed)
             = Inr (scoreAll False show_nat ?parsed)"
    and z: "\<forall>r\<in>set (scoreAll False show_nat ?parsed). matchPercentage r = Finite 0"
    by blast+
  from z have "map matchPercentage (scoreAll False show_nat ?parsed)
                 = map (\<lambda>r. Finite 0) (scoreAll False show_nat ?parsed)"
    by simp
  also have "\<dots> = replicate (length (scoreAll False show_nat ?parsed)) (Finite 0)"
    by (simp add: map_replicate_const)
  also have "\<dots> = [Finite 0, Finite 0]"
    unfolding l by (simp add: numeral_2_eq_2)
  finally show ?thesis using g t by simp
qed






section \<open>Properties of the write handlers\<close>










lemma find_owned_None:
  "find (\<lambda>r. item_id r = ident \<and> user_id r = userId) table = None
     \<longleftrightarrow> (\<forall>r\<in>set table. \<not> (item_id r = ident \<and> user_id r = userId))"
  by (auto simp: find_None_iff)

text \<open>
  C10. The update keeps the number and the order of the rows. A row with the given
  identifier and owner keeps its identifier, owner and creation time, and keeps every
  field that the request omits; every other row is unchanged. When no row has the
  identifier and the owner, the answer is 404 and the table is unchanged, and so it is
  on every failure. When such a row exists and the category, if given, is one of the five
  names, the answer is 200 and the row is the old one with the given fields and the
  update time replaced.
\<close>

theorem put_item_frame:
  "length (snd (put_item table userId ident body now)) = length table
   \<and> (\<forall>i<length table.
        (if item_id (table ! i) = ident \<and> user_id (table ! i) = userId
         then item_id (snd (put_item table userId ident body now) ! i) = ident
            \<and> user_id (snd (put_item table userId ident body now) ! i) = userId
            \<and> created_at (snd (put_item table userId ident body now) ! i) = created_at (table ! i)
            \<and> (new_name body = None \<longrightarrow>
                 name (snd (put_item table userId ident body now) ! i) = name (table ! i))
            \<and> (new_category body = None \<longrightarrow>
                 category (snd (put_item table userId ident body now) ! i) = category (table ! i))
            \<and> (new_quantity body = None \<longrightarrow>
                 quantity (snd (put_item table userId ident body now) ! i) = quantity (table ! i))
            \<and> (new_expiryDate body = None \<longrightarrow>
                 expiryDate (snd (put_item table userId ident body now) ! i) = expiryDate (table ! i))
            \<and> (new_confidence body = None \<longrightarrow>
                 confidence (snd (put_item table userId ident body now) ! i) = confidence (table ! i))
         else snd (put_item table userId ident body now) ! i = table ! i))
   \<and> ((\<forall>r\<in>set table. \<not> (item_id r = ident \<and> user_id r = userId)) \<longrightarrow>
        put_item table userId ident body now = (Failure 404 ''Item not found'', table))
   \<and> (\<forall>code msg. fst (put_item table userId ident body now) = Failure code msg \<longrightarrow>
        snd (put_item table userId ident body now) = table)
   \<and> ((\<exists>r\<in>set table. item_id r = ident \<and> user_id r = userId)
        \<and> (\<forall>c. new_category body = Some c \<longrightarrow> c \<in> set validCategories) \<longrightarrow>
        (\<exists>d. fst (put_item table userId ident body now) = Success 200 d)
        \<and> (\<forall>i<length table. item_id (table ! i) = ident \<and> user_id (table ! i) = userId \<longrightarrow>
              snd (put_item table userId ident body now) ! i = update_set body now (table ! i)))"
proof (cases "find (\<lambda>r. item_id r = ident \<and> user_id r = userId) table")
  case None
  then have out: "put_item table userId ident body now = (Failure 404 ''Item not found'', table)"
    by (simp add: put_item_def)
  from None have no: "\<forall>r\<in>set table. \<not> (item_id r = ident \<and> user_id r = userId)"
    by (simp add: find_owned_None)
  then have "\<forall>i<length table. \<not> (item_id (table ! i) = ident \<and> user_id (table ! i) = userId)"
    by auto
  with out no show ?thesis by auto
next
  case (Some existing)
  then have ex: "\<exists>r\<in>set table. item_id r = ident \<and> user_id r = userId"
    using find_owned_None [of ident userId table] by auto
  show ?thesis
  proof (cases "case new_category body of None \<Rightarrow> False | Some c \<Rightarrow> c \<notin> set validCategories")
    case True
    with Some have out: "put_item table userId ident body now = (Failure 500 ''Failed to update item'', table)"
      by (simp add: put_item_def)
    from True have "\<not> (\<forall>c. new_category body = Some c \<longrightarrow> c \<in> set validCategories)"
      by (auto split: option.splits)
    with out ex show ?thesis by auto
  next
    case False
    let ?t = "map (\<lambda>r. if item_id r = ident \<and> user_id r = userId then update_set body now r else r) table"
    from False Some have out: "put_item table userId ident body now
        = (Success 200 (map_option Ingredient.truncate (find (\<lambda>r. item_id r = ident) ?t)), ?t)"
      by (simp add: put_item_def Let_def)
    have rows: "\<forall>i<length table. ?t ! i = (if item_id (table ! i) = ident \<and> user_id (table ! i) = userId
        then update_set body now (table ! i) else table ! i)"
      by simp
    show ?thesis
      unfolding out using ex rows by (auto simp: update_set_def COALESCE_def)
  qed
qed

theorem put_item_frame_witness:
  "put_item [milk, eggs] ''v'' ''i2'' quantityOnly 77 = (Failure 404 ''Item not found'', [milk, eggs])
   \<and> snd (put_item [milk, eggs] ''u'' ''i2'' quantityOnly 77) ! 0 = milk
   \<and> name (snd (put_item [milk, eggs] ''u'' ''i2'' quantityOnly 77) ! 1) = ''Eggs''
   \<and> quantity (snd (put_item [milk, eggs] ''u'' ''i2'' quantityOnly 77) ! 1) = ''6''"
proof -
  have no: "\<forall>r\<in>set [milk, eggs]. \<not> (item_id r = ''i2'' \<and> user_id r = ''v'')"
    by (simp add: milk_def eggs_def)
  from put_item_frame [of "[milk, eggs]" "''v''" "''i2''" quantityOnly 77] no
  have a: "put_item [milk, eggs] ''v'' ''i2'' quantityOnly 77 = (Failure 404 ''Item not found'', [milk, eggs])"
    by blast
  from put_item_frame [of "[milk, eggs]" "''u''" "''i2''" quantityOnly 77]
  have rows: "\<forall>i<length [milk, eggs].
        (if item_id ([milk, eggs] ! i) = ''i2'' \<and> user_id ([milk, eggs] ! i) = ''u''
         then item_id (snd (put_item [milk, eggs] ''u'' ''i2'' quantityOnly 77) ! i) = ''i2''
            \<and> user_id (snd (put_item [milk, eggs] ''u'' ''i2'' quantityOnly 77) ! i) = ''u''
            \<and> created_at (snd (put_item [milk, eggs] ''u'' ''i2'' quantityOnly 77) ! i) = created_at ([milk, eggs] ! i)
            \<and> (new_name quantityOnly = None \<longrightarrow>
                 name (snd (put_item [milk, eggs] ''u'' ''i2'' quantityOnly 77) ! i) = name ([milk, eggs] ! i))
            \<and> (new_category quantityOnly = None \<longrightarrow>
                 category (snd (put_item [milk, eggs] ''u'' ''i2'' quantityOnly 77) ! i) = category ([milk, eggs] ! i))
            \<and> (new_quantity quantityOnly = None \<longrightarrow>
                 quantity (snd (put_item [milk, eggs] ''u'' ''i2'' quantityOnly 77) ! i) = quantity ([milk, eggs] ! i))
            \<and> (new_expiryDate quantityOnly = None \<longrightarrow>
                 expiryDate (snd (put_item [milk, eggs] ''u'' ''i2'' quantityOnly 77) ! i) = expiryDate ([milk, eggs] ! i))
            \<and> (new_confidence quantityOnly = None \<longrightarrow>
                 confidence (snd (put_item [milk, eggs] ''u'' ''i2'' quantityOnly 77) ! i) = confidence ([milk, eggs] ! i))
         else snd (put_item [milk, eggs] ''u'' ''i2'' quantityOnly 77) ! i = [milk, eggs] ! i)"
    by blast
  from rows [rule_format, of 0]
  have b: "snd (put_item [milk, eggs] ''u'' ''i2'' quantityOnly 77) ! 0 = milk"
    by (simp add: milk_def)
  from rows [rule_format, of 1]
  have c: "name (snd (put_item [milk, eggs] ''u'' ''i2'' quantityOnly 77) ! 1) = ''Eggs''"
    by (simp add: eggs_def quantityOnly_def)
  have d: "quantity (snd (put_item [milk, eggs] ''u'' ''i2'' quantityOnly 77) ! 1) = ''6''"
    by code_simp
  from a b c d show ?thesis by simp
qed

section \<open>Properties of the expiry notifications\<close>

text \<open>
  The window of the query, written on day numbers, is the window of the classifier: the
  day count lies between 0 and the number of days.
\<close>

lemma isoDate_addDays: "isoDate (addDays now d) = isoDate now + d"
  by (simp add: isoDate_def addDays_def msPerDay_def)

lemma window_is_classifier:
  "(expiryDate i \<le> isoDate (addDays now d) \<and> isoDate now \<le> expiryDate i)
     \<longleftrightarrow> (0 \<le> daysUntil now (expiryDate i) \<and> daysUntil now (expiryDate i) \<le> d)"
  by (auto simp: isoDate_addDays daysUntil_eq)

lemma set_expiringItems_of:
  "set (expiringItems_of ingredients uid now d)
     = {i \<in> set ingredients. user_id i = uid \<and> 0 \<le> daysUntil now (expiryDate i)
                               \<and> daysUntil now (expiryDate i) \<le> d}"
  using window_is_classifier [of _ now d] by (auto simp: expiringItems_of_def Let_def)

lemma notifications_have_items:
  "(uid, p) \<in> set (sendExpiryNotifications users prefs ingredients now) \<Longrightarrow> 0 < itemCount p"
  by (auto simp: sendExpiryNotifications_def Let_def expiry_payload_def split: if_splits)

lemma joined_row:
  "(uid, uname, days, en) \<in> set (selected_users users prefs) \<longleftrightarrow>
     (\<exists>u\<in>set users. uid = users_id u \<and> uname = users_name u
        \<and> (case find (\<lambda>np. np_user_id np = users_id u) prefs of
              None \<Rightarrow> days = None \<and> en = None
            | Some np \<Rightarrow> days = Some (expiry_days_before np) \<and> en = Some (enabled np)
                         \<and> enabled np = 1))"
proof
  assume "(uid, uname, days, en) \<in> set (selected_users users prefs)"
  then obtain u where u: "u \<in> set users"
    and r: "(uid, uname, days, en) = (case find (\<lambda>np. np_user_id np = users_id u) prefs of
                    None \<Rightarrow> (users_id u, users_name u, None, None)
                  | Some np \<Rightarrow> (users_id u, users_name u, Some (expiry_days_before np), Some (enabled np)))"
    and e: "en = Some 1 \<or> en = None"
    unfolding selected_users_def by auto
  from r e have "uid = users_id u \<and> uname = users_name u
        \<and> (case find (\<lambda>np. np_user_id np = users_id u) prefs of
              None \<Rightarrow> days = None \<and> en = None
            | Some np \<Rightarrow> days = Some (expiry_days_before np) \<and> en = Some (enabled np)
                         \<and> enabled np = 1)"
    by (cases "find (\<lambda>np. np_user_id np = users_id u) prefs") auto
  with u show "\<exists>u\<in>set users. uid = users_id u \<and> uname = users_name u
        \<and> (case find (\<lambda>np. np_user_id np = users_id u) prefs of
              None \<Rightarrow> days = None \<and> en = None
            | Some np \<Rightarrow> days = Some (expiry_days_before np) \<and> en = Some (enabled np)
                         \<and> enabled np = 1)"
    by blast
next
  assume "\<exists>u\<in>set users. uid = users_id u \<and> uname = users_name u
        \<and> (case find (\<lambda>np. np_user_id np = users_id u) prefs of
              None \<Rightarrow> days = None \<and> en = None
            | Some np \<Rightarrow> days = Some (expiry_days_before np) \<and> en = Some (enabled np)
                         \<and> enabled np = 1)"
  then obtain u where u: "u \<in> set users" "uid = users_id u" "uname = users_name u"
    and c: "case find (\<lambda>np. np_user_id np = users_id u) prefs of
              None \<Rightarrow> days = None \<and> en = None
            | Some np \<Rightarrow> days = Some (expiry_days_before np) \<and> en = Some (enabled np)
                         \<and> enabled np = 1"
    by blast
  have r: "(uid, uname, days, en) = (case find (\<lambda>np. np_user_id np = users_id u) prefs of
                    None \<Rightarrow> (users_id u, users_name u, None, None)
                  | Some np \<Rightarrow> (users_id u, users_name u, Some (expiry_days_before np), Some (enabled np)))"
    and e: "en = Some 1 \<or> en = None"
    using u c by (cases "find (\<lambda>np. np_user_id np = users_id u) prefs"; simp)+
  have "(uid, uname, days, en) \<in> (\<lambda>u. case find (\<lambda>np. np_user_id np = users_id u) prefs of
                    None \<Rightarrow> (users_id u, users_name u, None, None)
                  | Some np \<Rightarrow> (users_id u, users_name u, Some (expiry_days_before np), Some (enabled np)))
            ` set users"
    using u(1) r by (rule rev_image_eqI)
  with e show "(uid, uname, days, en) \<in> set (selected_users users prefs)"
    unfolding selected_users_def by simp
qed

lemma nonempty_window:
  "(0 < length (expiringItems_of ingredients uid now d))
      = (\<exists>i\<in>set ingredients. user_id i = uid \<and> 0 \<le> daysUntil now (expiryDate i)
            \<and> daysUntil now (expiryDate i) \<le> d)"
proof -
  have "(0 < length (expiringItems_of ingredients uid now d))
          = (set (expiringItems_of ingredients uid now d) \<noteq> {})" by simp
  then show ?thesis unfolding set_expiringItems_of by blast
qed

lemma notified_row:
  "uid \<in> fst ` set (sendExpiryNotifications users prefs ingredients now) \<longleftrightarrow>
      (\<exists>uname days en. (uid, uname, days, en) \<in> set (selected_users users prefs)
          \<and> 0 < length (expiringItems_of ingredients uid now (daysBefore_of days)))"
proof
  assume "uid \<in> fst ` set (sendExpiryNotifications users prefs ingredients now)"
  then obtain p where "(uid, p) \<in> set (sendExpiryNotifications users prefs ingredients now)"
    by force
  then obtain row where row: "row \<in> set (selected_users users prefs)"
    and p: "(uid, p) \<in> set (case row of (uid, uname, days, en) \<Rightarrow>
                    let daysBefore = daysBefore_of days;
                        expiringItems = expiringItems_of ingredients uid now daysBefore
                    in if 0 < length expiringItems
                       then [(uid, expiry_payload expiringItems daysBefore)] else [])"
    unfolding sendExpiryNotifications_def by auto
  obtain uid' uname days en where r: "row = (uid', uname, days, en)" by (cases row) auto
  from p r have "uid' = uid"
    and "0 < length (expiringItems_of ingredients uid now (daysBefore_of days))"
    by (auto simp: Let_def split: if_splits)
  with row r show "\<exists>uname days en. (uid, uname, days, en) \<in> set (selected_users users prefs)
          \<and> 0 < length (expiringItems_of ingredients uid now (daysBefore_of days))"
    by blast
next
  assume "\<exists>uname days en. (uid, uname, days, en) \<in> set (selected_users users prefs)
          \<and> 0 < length (expiringItems_of ingredients uid now (daysBefore_of days))"
  then obtain uname days en where row: "(uid, uname, days, en) \<in> set (selected_users users prefs)"
    and n: "0 < length (expiringItems_of ingredients uid now (daysBefore_of days))"
    by blast
  let ?p = "expiry_payload (expiringItems_of ingredients uid now (daysBefore_of days)) (daysBefore_of days)"
  have "(uid, ?p) \<in> set (sendExpiryNotifications users prefs ingredients now)"
    unfolding sendExpiryNotifications_def using row n
    by (auto simp: Let_def intro!: bexI [of _ "(uid, uname, days, en)"])
  then show "uid \<in> fst ` set (sendExpiryNotifications users prefs ingredients now)"
    by force
qed


lemma notified_users:
  "uid \<in> fst ` set (sendExpiryNotifications users prefs ingredients now) \<longleftrightarrow>
     (\<exists>u\<in>set users. users_id u = uid
        \<and> (case find (\<lambda>np. np_user_id np = uid) prefs of
              None \<Rightarrow> \<exists>i\<in>set ingredients. user_id i = uid \<and> 0 \<le> daysUntil now (expiryDate i)
                          \<and> daysUntil now (expiryDate i) \<le> 3
            | Some np \<Rightarrow> enabled np = 1
                \<and> (\<exists>i\<in>set ingredients. user_id i = uid \<and> 0 \<le> daysUntil now (expiryDate i)
                      \<and> daysUntil now (expiryDate i)
                          \<le> (if expiry_days_before np = 0 then 3 else expiry_days_before np))))"
  (is "?L \<longleftrightarrow> ?R")
proof
  assume ?L
  then obtain uname days en where row: "(uid, uname, days, en) \<in> set (selected_users users prefs)"
    and n: "\<exists>i\<in>set ingredients. user_id i = uid \<and> 0 \<le> daysUntil now (expiryDate i)
            \<and> daysUntil now (expiryDate i) \<le> daysBefore_of days"
    unfolding notified_row nonempty_window by blast
  from row obtain u where u: "u \<in> set users" "uid = users_id u"
    and c: "case find (\<lambda>np. np_user_id np = uid) prefs of
              None \<Rightarrow> days = None \<and> en = None
            | Some np \<Rightarrow> days = Some (expiry_days_before np) \<and> en = Some (enabled np)
                         \<and> enabled np = 1"
    unfolding joined_row by blast
  from c n have "case find (\<lambda>np. np_user_id np = uid) prefs of
              None \<Rightarrow> \<exists>i\<in>set ingredients. user_id i = uid \<and> 0 \<le> daysUntil now (expiryDate i)
                          \<and> daysUntil now (expiryDate i) \<le> 3
            | Some np \<Rightarrow> enabled np = 1
                \<and> (\<exists>i\<in>set ingredients. user_id i = uid \<and> 0 \<le> daysUntil now (expiryDate i)
                      \<and> daysUntil now (expiryDate i)
                          \<le> (if expiry_days_before np = 0 then 3 else expiry_days_before np))"
    by (cases "find (\<lambda>np. np_user_id np = uid) prefs") (simp_all add: daysBefore_of_def)
  with u show ?R by blast
next
  assume ?R
  then obtain u where u: "u \<in> set users" "users_id u = uid"
    and c: "case find (\<lambda>np. np_user_id np = uid) prefs of
              None \<Rightarrow> \<exists>i\<in>set ingredients. user_id i = uid \<and> 0 \<le> daysUntil now (expiryDate i)
                          \<and> daysUntil now (expiryDate i) \<le> 3
            | Some np \<Rightarrow> enabled np = 1
                \<and> (\<exists>i\<in>set ingredients. user_id i = uid \<and> 0 \<le> daysUntil now (expiryDate i)
                      \<and> daysUntil now (expiryDate i)
                          \<le> (if expiry_days_before np = 0 then 3 else expiry_days_before np))"
    by blast
  show ?L
  proof (cases "find (\<lambda>np. np_user_id np = uid) prefs")
    case None
    with u have "(uid, users_name u, None, None) \<in> set (selected_users users prefs)"
      unfolding joined_row by auto
    moreover from c None have "0 < length (expiringItems_of ingredients uid now (daysBefore_of None))"
      unfolding nonempty_window by (simp add: daysBefore_of_def)
    ultimately show ?thesis unfolding notified_row by blast
  next
    case (Some np)
    with u c have "(uid, users_name u, Some (expiry_days_before np), Some (enabled np))
        \<in> set (selected_users users prefs)"
      unfolding joined_row by auto
    moreover from c Some
    have "0 < length (expiringItems_of ingredients uid now (daysBefore_of (Some (expiry_days_before np))))"
      unfolding nonempty_window by (simp add: daysBefore_of_def)
    ultimately show ?thesis unfolding notified_row by blast
  qed
qed

text \<open>
  C8. A user with notifications enabled who stored 0 for \<^verbatim>\<open>expiry_days_before\<close>, and
  whose only item expires in two days, has no item in a window of 0 days; the trigger
  reads the 0 as missing, takes 3 days and sends the notification.
\<close>

theorem zero_day_window_becomes_three:
  "expiry_days_before zeroDays = 0 \<and> enabled zeroDays = 1
   \<and> daysUntil (19884 * 86400000 + 43200000) (expiryDate eggsSoon) = 2
   \<and> sendExpiryNotifications [ada] [zeroDays] [eggsSoon] (19884 * 86400000 + 43200000)
       = [(''u'', \<lparr>payload_title = ''Items Expiring Soon!'',
                   payload_body = ''Eggs will expire within 3 days. Check your pantry!'',
                   tag = ''expiry-reminder'', url = ''/pantry'', itemCount = 1\<rparr>)]"
  by code_simp

end
